theory Spec2Isabelle
  imports Complex_Main
begin

section \<open>Values crossing the JavaScript boundary\<close>

text \<open>
  Inbound wire events are plain JavaScript objects, so a field may be missing.
  \<open>jsval\<close> covers what the handlers distinguish for \<open>userId\<close> and \<open>canvasData\<close>:
  \<open>undefined\<close>, \<open>null\<close> or a string. Strict equality (\<open>===\<close>) on these values is
  equality of the datatype. A coordinate is a finite number or \<open>NaN\<close> (which also stands
  for a value the canvas API converts to a non-finite number).
\<close>

datatype jsval = Undefined | Null | Str string

fun truthy :: "jsval \<Rightarrow> bool" where
  "truthy Undefined = False"
| "truthy Null = False"
| "truthy (Str s) = (s \<noteq> [])"

datatype jsnum = Num real | NaN

datatype jsexn = TypeError

datatype 'a promise = Resolved 'a | Rejected string

section \<open>The 2D context of one layer\<close>

datatype composite = SourceOver | DestinationOut

datatype pathcmd = MoveTo jsnum jsnum | LineTo jsnum jsnum | ClosePath

text \<open>
  A layer is a canvas element with its 2D context: the pixel buffer and the context
  attributes the program assigns. \<open>path\<close> is the list of path calls since the last
  \<open>beginPath()\<close>.
\<close>

record 'img layer =
  pixels :: 'img
  globalCompositeOperation :: composite
  strokeStyle :: string
  ctxLineWidth :: real
  lineCap :: string
  lineJoin :: string
  path :: "pathcmd list"

text \<open>
  What the browser does and the repository does not define: rasterising the current
  path, encoding a canvas as a data URL, decoding a data URL (\<open>None\<close> is the image's
  \<open>onerror\<close>), drawing an image over a buffer with source-over compositing at the
  canvas's logical size, clearing the whole buffer, the buffer of a new canvas, colour
  parsing, and the position of the canvas in the viewport.
\<close>

record 'img browser =
  blank :: 'img
  clearRect :: "'img \<Rightarrow> 'img"
  drawImage :: "'img \<Rightarrow> 'img \<Rightarrow> 'img"
  stroke :: "'img layer \<Rightarrow> 'img"
  toDataURL :: "'img \<Rightarrow> string"
  loadImage :: "string \<Rightarrow> 'img option"
  validColor :: "string \<Rightarrow> bool"
  rectLeft :: real
  rectTop :: real

definition newLayer :: "'img browser \<Rightarrow> 'img layer" where
  "newLayer B = \<lparr>pixels = blank B, globalCompositeOperation = SourceOver,
     strokeStyle = ''#000000'', ctxLineWidth = 1, lineCap = ''butt'', lineJoin = ''miter'',
     path = []\<rparr>"

definition setLineWidth :: "jsnum \<Rightarrow> 'img layer \<Rightarrow> 'img layer" where
  "setLineWidth w l = (case w of Num r \<Rightarrow> if 0 < r then l\<lparr>ctxLineWidth := r\<rparr> else l | NaN \<Rightarrow> l)"

definition setStrokeStyle :: "'img browser \<Rightarrow> string \<Rightarrow> 'img layer \<Rightarrow> 'img layer" where
  "setStrokeStyle B c l = (if validColor B c then l\<lparr>strokeStyle := c\<rparr> else l)"

definition beginPath :: "'img layer \<Rightarrow> 'img layer" where
  "beginPath l = l\<lparr>path := []\<rparr>"

definition moveTo :: "jsnum \<Rightarrow> jsnum \<Rightarrow> 'img layer \<Rightarrow> 'img layer" where
  "moveTo x y l = l\<lparr>path := path l @ [MoveTo x y]\<rparr>"

definition lineTo :: "jsnum \<Rightarrow> jsnum \<Rightarrow> 'img layer \<Rightarrow> 'img layer" where
  "lineTo x y l = l\<lparr>path := path l @ [LineTo x y]\<rparr>"

definition closePath :: "'img layer \<Rightarrow> 'img layer" where
  "closePath l = l\<lparr>path := path l @ [ClosePath]\<rparr>"

definition strokeCtx :: "'img browser \<Rightarrow> 'img layer \<Rightarrow> 'img layer" where
  "strokeCtx B l = l\<lparr>pixels := stroke B l\<rparr>"

text \<open>\<open>save(); setTransform(1,0,0,1,0,0); clearRect(0,0,width,height); restore()\<close>\<close>

definition clearLayer :: "'img browser \<Rightarrow> 'img layer \<Rightarrow> 'img layer" where
  "clearLayer B l = l\<lparr>pixels := clearRect B (pixels l)\<rparr>"

text \<open>The body of an image's \<open>onload\<close>: clear, set source-over, draw the image.\<close>

definition drawLoaded :: "'img browser \<Rightarrow> 'img \<Rightarrow> 'img layer \<Rightarrow> 'img layer" where
  "drawLoaded B img l =
     (clearLayer B l)\<lparr>globalCompositeOperation := SourceOver,
                      pixels := drawImage B img (clearRect B (pixels l))\<rparr>"

section \<open>CanvasManager\<close>

text \<open>
  \<open>remoteCanvases\<close> is a JavaScript \<open>Map\<close>: an association list in insertion order
  with unique keys. \<open>undoStack\<close> and \<open>redoStack\<close> are arrays whose last element is
  the top (\<open>push\<close> appends, \<open>pop\<close> removes the last, \<open>shift\<close> the first).
  \<open>console\<close> collects the \<open>console.warn\<close> and \<open>console.error\<close> diagnostics.
\<close>

record 'img manager =
  display :: 'img
  userCanvas :: "'img layer"
  remoteCanvases :: "(string \<times> 'img layer) list"
  drawing :: bool
  lastPos :: "real \<times> real"
  mode :: string
  strokeColor :: string
  lineWidth :: jsnum
  undoStack :: "string list"
  redoStack :: "string list"
  console :: "string list"

definition MAX_STACK :: nat where
  "MAX_STACK = 50"

definition newManager :: "'img browser \<Rightarrow> 'img manager" where
  "newManager B = \<lparr>display = blank B, userCanvas = newLayer B, remoteCanvases = [],
     drawing = False, lastPos = (0, 0), mode = ''brush'', strokeColor = ''#000000'',
     lineWidth = Num 5, undoStack = [], redoStack = [], console = []\<rparr>"

definition updateRemote ::
  "string \<Rightarrow> ('img layer \<Rightarrow> 'img layer) \<Rightarrow> 'img manager \<Rightarrow> 'img manager" where
  "updateRemote u f m =
     m\<lparr>remoteCanvases := map (\<lambda>(k, l). if k = u then (k, f l) else (k, l)) (remoteCanvases m)\<rparr>"

definition getOrCreateRemoteCanvas :: "'img browser \<Rightarrow> string \<Rightarrow> 'img manager \<Rightarrow> 'img manager" where
  "getOrCreateRemoteCanvas B u m =
     (if map_of (remoteCanvases m) u = None
      then m\<lparr>remoteCanvases := remoteCanvases m @ [(u, newLayer B)]\<rparr>
      else m)"

definition composed :: "'img browser \<Rightarrow> 'img \<Rightarrow> 'img layer \<Rightarrow> (string \<times> 'img layer) list \<Rightarrow> 'img" where
  "composed B d own remotes =
     foldl (\<lambda>acc (u, l). drawImage B (pixels l) acc)
           (drawImage B (pixels own) (clearRect B d)) remotes"

definition composeLayers :: "'img browser \<Rightarrow> 'img manager \<Rightarrow> 'img manager" where
  "composeLayers B m = m\<lparr>display := composed B (display m) (userCanvas m) (remoteCanvases m)\<rparr>"

record pointerEvent =
  button :: "int option"
  pointerId :: nat
  clientX :: real
  clientY :: real

definition getPointerPos :: "'img browser \<Rightarrow> pointerEvent \<Rightarrow> real \<times> real" where
  "getPointerPos B e = (clientX e - rectLeft B, clientY e - rectTop B)"

definition pushUndo :: "'img browser \<Rightarrow> 'img manager \<Rightarrow> 'img manager" where
  "pushUndo B m =
     (let st = (if MAX_STACK \<le> length (undoStack m) then tl (undoStack m) else undoStack m)
      in m\<lparr>undoStack := st @ [toDataURL B (pixels (userCanvas m))]\<rparr>)"

text \<open>
  The pointer handlers. Pointer capture and the outbound \<open>emitDrawEvent\<close> only reach
  the DOM and the socket and are left out.
\<close>

definition handlePointerDown :: "'img browser \<Rightarrow> pointerEvent \<Rightarrow> 'img manager \<Rightarrow> 'img manager" where
  "handlePointerDown B e m =
     (if (case button e of None \<Rightarrow> False | Some b \<Rightarrow> b \<noteq> 0) then m
      else
        let m1 = pushUndo B m;
            p = getPointerPos B e;
            c1 = setLineWidth (lineWidth m1) ((userCanvas m1)\<lparr>lineCap := ''round'', lineJoin := ''round''\<rparr>);
            c2 = (if mode m1 = ''eraser''
                  then setStrokeStyle B ''rgba(0,0,0,1)'' (c1\<lparr>globalCompositeOperation := DestinationOut\<rparr>)
                  else setStrokeStyle B (strokeColor m1) (c1\<lparr>globalCompositeOperation := SourceOver\<rparr>));
            c3 = moveTo (Num (fst p)) (Num (snd p)) (beginPath c2)
        in m1\<lparr>drawing := True, lastPos := p, userCanvas := c3\<rparr>)"

definition handlePointerMove :: "'img browser \<Rightarrow> pointerEvent \<Rightarrow> 'img manager \<Rightarrow> 'img manager" where
  "handlePointerMove B e m =
     (if \<not> drawing m then m
      else
        let p = getPointerPos B e;
            c = strokeCtx B (lineTo (Num (fst p)) (Num (snd p)) (userCanvas m))
        in composeLayers B (m\<lparr>userCanvas := c, lastPos := p\<rparr>))"

definition handlePointerUp :: "'img browser \<Rightarrow> pointerEvent \<Rightarrow> 'img manager \<Rightarrow> 'img manager" where
  "handlePointerUp B e m =
     (if \<not> drawing m then m
      else composeLayers B
             (m\<lparr>drawing := False, userCanvas := closePath (userCanvas m), redoStack := []\<rparr>))"

definition setMode :: "string \<Rightarrow> 'img manager \<Rightarrow> 'img manager" where
  "setMode v m = m\<lparr>mode := v\<rparr>"

text \<open>
  \<open>applyDataUrl\<close> returns a promise; the model runs it to settlement, as the callers
  that \<open>await\<close> it do: the image either loads (\<open>onload\<close>) or fails (\<open>onerror\<close>).
\<close>

definition applyDataUrl :: "'img browser \<Rightarrow> string \<Rightarrow> 'img manager \<Rightarrow> 'img manager \<times> unit promise" where
  "applyDataUrl B dataUrl m =
     (case loadImage B dataUrl of
        Some img \<Rightarrow> (composeLayers B (m\<lparr>userCanvas := drawLoaded B img (userCanvas m)\<rparr>), Resolved ())
      | None \<Rightarrow> (m\<lparr>console := console m @ [''Failed to apply canvas data'']\<rparr>,
                 Rejected ''Failed to load image''))"

text \<open>\<open>.then(() => true)\<close>: a resolved promise becomes \<open>true\<close>, a rejected one stays rejected.\<close>

fun thenTrue :: "unit promise \<Rightarrow> bool promise" where
  "thenTrue (Resolved u) = Resolved True"
| "thenTrue (Rejected e) = Rejected e"

definition undo :: "'img browser \<Rightarrow> 'img manager \<Rightarrow> 'img manager \<times> bool promise" where
  "undo B m =
     (if undoStack m = [] then (m, Resolved False)
      else
        let m1 = m\<lparr>redoStack := redoStack m @ [toDataURL B (pixels (userCanvas m))]\<rparr>;
            dataUrl = last (undoStack m1);
            m2 = m1\<lparr>undoStack := butlast (undoStack m1)\<rparr>;
            r = applyDataUrl B dataUrl m2
        in (fst r, thenTrue (snd r)))"

definition redo :: "'img browser \<Rightarrow> 'img manager \<Rightarrow> 'img manager \<times> bool promise" where
  "redo B m =
     (if redoStack m = [] then (m, Resolved False)
      else
        let m1 = m\<lparr>undoStack := undoStack m @ [toDataURL B (pixels (userCanvas m))]\<rparr>;
            dataUrl = last (redoStack m1);
            m2 = m1\<lparr>redoStack := butlast (redoStack m1)\<rparr>;
            r = applyDataUrl B dataUrl m2
        in (fst r, thenTrue (snd r)))"

definition clear :: "'img browser \<Rightarrow> 'img manager \<Rightarrow> 'img manager" where
  "clear B m =
     (let m1 = pushUndo B m
      in composeLayers B (m1\<lparr>userCanvas := clearLayer B (userCanvas m1), redoStack := []\<rparr>))"

definition clearRemoteCanvas :: "'img browser \<Rightarrow> jsval \<Rightarrow> 'img manager \<Rightarrow> 'img manager" where
  "clearRemoteCanvas B uid m =
     (case uid of
        Str u \<Rightarrow>
          (if u = [] then m\<lparr>console := console m @ [''clearRemoteCanvas called without userId'']\<rparr>
           else if map_of (remoteCanvases m) u = None then m
           else composeLayers B (updateRemote u (clearLayer B) m))
      | _ \<Rightarrow> m\<lparr>console := console m @ [''clearRemoteCanvas called without userId'']\<rparr>)"

definition removeRemoteUser :: "'img browser \<Rightarrow> string \<Rightarrow> 'img manager \<Rightarrow> 'img manager" where
  "removeRemoteUser B u m =
     (if map_of (remoteCanvases m) u = None then m
      else composeLayers B (m\<lparr>remoteCanvases := filter (\<lambda>(k, l). k \<noteq> u) (remoteCanvases m)\<rparr>))"

definition updateRemoteCanvas :: "'img browser \<Rightarrow> jsval \<Rightarrow> jsval \<Rightarrow> 'img manager \<Rightarrow> 'img manager" where
  "updateRemoteCanvas B uid dataUrl m =
     (case (uid, dataUrl) of
        (Str u, Str d) \<Rightarrow>
          (if u = [] \<or> d = []
           then m\<lparr>console := console m @ [''updateRemoteCanvas called with invalid parameters'']\<rparr>
           else
             let m1 = getOrCreateRemoteCanvas B u m
             in (case loadImage B d of
                   Some img \<Rightarrow> composeLayers B (updateRemote u (drawLoaded B img) m1)
                 | None \<Rightarrow> m1\<lparr>console := console m1 @ [''Failed to load image for remote canvas update'']\<rparr>))
      | _ \<Rightarrow> m\<lparr>console := console m @ [''updateRemoteCanvas called with invalid parameters'']\<rparr>)"

record drawData =
  etype :: string
  pos :: "(jsnum \<times> jsnum) option"
  dmode :: string
  color :: string
  width :: jsnum
  userId :: jsval

text \<open>
  \<open>applyRemoteDrawing\<close> reads \<open>pos.x\<close> in the \<open>start\<close> and \<open>move\<close> branches: with
  \<open>pos\<close> missing that read throws a \<open>TypeError\<close>, after the layer has been fetched or
  created and its context configured. The result pairs the state left behind with the
  exception, if any.
\<close>

definition applyRemoteDrawing ::
  "'img browser \<Rightarrow> drawData \<Rightarrow> 'img manager \<Rightarrow> 'img manager \<times> jsexn option" where
  "applyRemoteDrawing B d m =
     (case userId d of
        Str u \<Rightarrow>
          (if u = [] then (m\<lparr>console := console m @ [''Drawing data missing userId:'']\<rparr>, None)
           else
             let m1 = getOrCreateRemoteCanvas B u m;
                 m2 = updateRemote u (\<lambda>c. setLineWidth (width d) (c\<lparr>lineCap := ''round'', lineJoin := ''round''\<rparr>)) m1;
                 m3 = (if dmode d = ''eraser''
                       then updateRemote u (\<lambda>c. setStrokeStyle B ''rgba(0,0,0,1)'' (c\<lparr>globalCompositeOperation := DestinationOut\<rparr>)) m2
                       else updateRemote u (\<lambda>c. setStrokeStyle B (color d) (c\<lparr>globalCompositeOperation := SourceOver\<rparr>)) m2)
             in if etype d = ''start'' then
                  (case pos d of
                     None \<Rightarrow> (updateRemote u beginPath m3, Some TypeError)
                   | Some (x, y) \<Rightarrow> (updateRemote u (\<lambda>c. moveTo x y (beginPath c)) m3, None))
                else if etype d = ''move'' then
                  (case pos d of
                     None \<Rightarrow> (m3, Some TypeError)
                   | Some (x, y) \<Rightarrow>
                       (composeLayers B (updateRemote u (\<lambda>c. strokeCtx B (lineTo x y c)) m3), None))
                else if etype d = ''end'' then
                  (composeLayers B (updateRemote u closePath m3), None)
                else (m3, None))
      | _ \<Rightarrow> (m\<lparr>console := console m @ [''Drawing data missing userId:'']\<rparr>, None))"

definition getCanvasData :: "'img browser \<Rightarrow> 'img manager \<Rightarrow> string" where
  "getCanvasData B m = toDataURL B (pixels (userCanvas m))"

text \<open>\<open>loadCanvasData\<close> drops the promise of \<open>applyDataUrl\<close>.\<close>

definition loadCanvasData :: "'img browser \<Rightarrow> string \<Rightarrow> 'img manager \<Rightarrow> 'img manager" where
  "loadCanvasData B dataUrl m = fst (applyDataUrl B dataUrl m)"

section \<open>Inbound events: WebSocketClient and the application callbacks\<close>

text \<open>
  \<open>appUserId\<close> is \<open>CollaborativeCanvasApp.userId\<close> (a non-empty string from session
  storage), \<open>wsUserId\<close> is \<open>WebSocketClient.userId\<close> (\<open>null\<close> until \<open>connect\<close>). Each
  function below is a socket listener of \<open>setupSocketListeners\<close> composed with the
  callback that \<open>setupWebSocket\<close> assigns to it.
\<close>

record 'img app =
  canvasManager :: "'img manager"
  appUserId :: string
  wsUserId :: jsval

definition onDrawing :: "'img browser \<Rightarrow> drawData \<Rightarrow> 'img app \<Rightarrow> 'img app \<times> jsexn option" where
  "onDrawing B d a =
     (if userId d \<noteq> wsUserId a
      then (let r = applyRemoteDrawing B d (canvasManager a)
            in (a\<lparr>canvasManager := fst r\<rparr>, snd r))
      else (a, None))"

definition onCanvasState :: "'img browser \<Rightarrow> jsval \<Rightarrow> 'img app \<Rightarrow> 'img app" where
  "onCanvasState B canvasData a =
     (case canvasData of
        Str d \<Rightarrow> (if d = [] then a else a\<lparr>canvasManager := loadCanvasData B d (canvasManager a)\<rparr>)
      | _ \<Rightarrow> a)"

definition onClearCanvas :: "'img browser \<Rightarrow> jsval \<Rightarrow> 'img app \<Rightarrow> 'img app" where
  "onClearCanvas B uid a =
     (if uid \<noteq> Str (appUserId a)
      then a\<lparr>canvasManager := clearRemoteCanvas B uid (canvasManager a)\<rparr>
      else a)"

text \<open>The \<open>undo\<close> and \<open>redo\<close> listeners and callbacks are the same code.\<close>

definition onUndoRedo :: "'img browser \<Rightarrow> jsval \<Rightarrow> jsval \<Rightarrow> 'img app \<Rightarrow> 'img app" where
  "onUndoRedo B uid canvasData a =
     (if uid \<noteq> wsUserId a \<and> truthy canvasData \<and> truthy uid
      then a\<lparr>canvasManager := updateRemoteCanvas B uid canvasData (canvasManager a)\<rparr>
      else a)"

section \<open>Gestures and snapshots\<close>

text \<open>
  A completed local draw action is one gesture: pointer down, any number of pointer
  moves, pointer up (or cancel, which runs the same handler).
\<close>

record gesture =
  gDown :: pointerEvent
  gMoves :: "pointerEvent list"
  gUp :: pointerEvent

definition primary :: "pointerEvent \<Rightarrow> bool" where
  "primary e = (case button e of None \<Rightarrow> True | Some b \<Rightarrow> b = 0)"

definition strokeGesture :: "'img browser \<Rightarrow> gesture \<Rightarrow> 'img manager \<Rightarrow> 'img manager" where
  "strokeGesture B g m =
     handlePointerUp B (gUp g)
       (foldl (\<lambda>s e. handlePointerMove B e s) (handlePointerDown B (gDown g) m) (gMoves g))"

definition strokes :: "'img browser \<Rightarrow> gesture list \<Rightarrow> 'img manager \<Rightarrow> 'img manager" where
  "strokes B gs m = foldl (\<lambda>s g. strokeGesture B g s) m gs"

text \<open>
  \<open>restores B url q p\<close>: the data URL decodes, and drawing the image over the cleared
  buffer \<open>q\<close> gives the pixels \<open>p\<close>.
\<close>

definition restores :: "'img browser \<Rightarrow> string \<Rightarrow> 'img \<Rightarrow> 'img \<Rightarrow> bool" where
  "restores B url q p =
     (case loadImage B url of None \<Rightarrow> False | Some img \<Rightarrow> drawImage B img (clearRect B q) = p)"

text \<open>Completed user actions on the history: each runs its handlers to the end.\<close>

datatype action = Draw gesture | Clear | Undo | Redo

fun perform :: "'img browser \<Rightarrow> action \<Rightarrow> 'img manager \<Rightarrow> 'img manager" where
  "perform B (Draw g) m = strokeGesture B g m"
| "perform B Clear m = clear B m"
| "perform B Undo m = fst (undo B m)"
| "perform B Redo m = fst (redo B m)"

section \<open>A concrete browser for running the model\<close>

text \<open>
  A one-bit raster of four pixels: a pixel is inked or transparent. A stroke with at
  least one line segment covers the whole raster (inking it with source-over, wiping it
  with destination-out); a data URL is the pixels written as \<open>0\<close> and \<open>1\<close>, and any
  other string fails to decode; drawing an image inks what the image inks.
\<close>

definition bitStroke :: "bool list layer \<Rightarrow> bool list" where
  "bitStroke l =
     (if list_ex (\<lambda>c. case c of LineTo (Num x) (Num y) \<Rightarrow> True | _ \<Rightarrow> False) (path l)
      then map (\<lambda>b. globalCompositeOperation l = SourceOver) (pixels l)
      else pixels l)"

definition bitLoad :: "string \<Rightarrow> bool list option" where
  "bitLoad s =
     (if length s = 4 \<and> list_all (\<lambda>c. c = CHR ''0'' \<or> c = CHR ''1'') s
      then Some (map (\<lambda>c. c = CHR ''1'') s) else None)"

definition bitBrowser :: "bool list browser" where
  "bitBrowser = \<lparr>blank = [False, False, False, False],
     clearRect = (\<lambda>p. [False, False, False, False]),
     drawImage = (\<lambda>src dst. map2 (\<or>) src dst),
     stroke = bitStroke,
     toDataURL = map (\<lambda>b. if b then CHR ''1'' else CHR ''0''),
     loadImage = bitLoad,
     validColor = (\<lambda>c. c \<noteq> []),
     rectLeft = 0, rectTop = 0\<rparr>"

definition click :: "real \<Rightarrow> real \<Rightarrow> pointerEvent" where
  "click x y = \<lparr>button = Some 0, pointerId = 1, clientX = x, clientY = y\<rparr>"

definition dash :: gesture where
  "dash = \<lparr>gDown = click 10 10, gMoves = [click 50 10], gUp = click 50 10\<rparr>"

text \<open>
  Example states. \<open>oneStroke\<close>: one local dash on a new canvas. \<open>staleHistory\<close>:
  both stacks hold \<open>data:,\<close>, the data URL a canvas of zero width or height encodes
  to, which no image decoder accepts. \<open>peers\<close>: the local user \<open>u1\<close> and the remote
  authors \<open>u2\<close> and \<open>u3\<close> have each drawn a dash. \<open>fullHistory\<close>: fifty local
  dashes. \<open>noPos\<close>: a drawing event from \<open>u2\<close> without the \<open>pos\<close> field.
\<close>

definition oneStroke :: "bool list manager" where
  "oneStroke = strokeGesture bitBrowser dash (newManager bitBrowser)"

definition staleHistory :: "bool list manager" where
  "staleHistory = (newManager bitBrowser)\<lparr>undoStack := [''data:,''], redoStack := [''data:,'']\<rparr>"

definition app0 :: "bool list app" where
  "app0 = \<lparr>canvasManager = newManager bitBrowser, appUserId = ''u1'', wsUserId = Str ''u1''\<rparr>"

definition noPos :: drawData where
  "noPos = \<lparr>etype = ''start'', pos = None, dmode = ''brush'', color = ''#000000'',
     width = Num 5, userId = Str ''u2''\<rparr>"

definition pen :: "string \<Rightarrow> string \<Rightarrow> string \<Rightarrow> real \<Rightarrow> drawData" where
  "pen u md ty x = \<lparr>etype = ty, pos = Some (Num x, Num 10), dmode = md, color = ''#000000'',
     width = Num 5, userId = Str u\<rparr>"

definition remoteDash :: "string \<Rightarrow> bool list manager \<Rightarrow> bool list manager" where
  "remoteDash u m =
     fst (applyRemoteDrawing bitBrowser (pen u ''brush'' ''end'' 50)
       (fst (applyRemoteDrawing bitBrowser (pen u ''brush'' ''move'' 50)
         (fst (applyRemoteDrawing bitBrowser (pen u ''brush'' ''start'' 10) m)))))"

definition peers :: "bool list app" where
  "peers = \<lparr>canvasManager = remoteDash ''u3'' (remoteDash ''u2'' oneStroke),
     appUserId = ''u1'', wsUserId = Str ''u1''\<rparr>"

definition fullHistory :: "bool list manager" where
  "fullHistory = strokes bitBrowser (replicate 50 dash) (newManager bitBrowser)"



definition loopback :: drawData where
  "loopback = pen ''u1'' ''brush'' ''move'' 50"

section \<open>A concrete browser with the canvas geometry\<close>

text \<open>
  \<open>setCanvasSize\<close> gives every buffer \<open>Math.floor(rect.width * dpr)\<close> device pixels
  and scales the context by \<open>dpr\<close>; every restore calls
  \<open>drawImage(img, 0, 0, rect.width, rect.height)\<close> under that transform, so the image
  is drawn \<open>rect.width * dpr\<close> device pixels wide. \<open>rowBrowser w dpr\<close> is a one-bit
  raster of one row with that geometry: \<open>drawImage\<close> stretches the image to the drawn
  width and each device pixel shows the source pixel under its centre; a stroke inks
  (or, with destination-out, wipes) the device pixel under each line end.
\<close>

definition bufferWidth :: "real \<Rightarrow> real \<Rightarrow> nat" where
  "bufferWidth w dpr = nat \<lfloor>w * dpr\<rfloor>"

definition drawnWidth :: "real \<Rightarrow> real \<Rightarrow> real" where
  "drawnWidth w dpr = w * dpr"

definition resample :: "real \<Rightarrow> bool list \<Rightarrow> nat \<Rightarrow> bool list" where
  "resample dw src n =
     map (\<lambda>i. let j = nat \<lfloor>(real i + 1 / 2) * real (length src) / dw\<rfloor>
              in j < length src \<and> src ! j) [0..<n]"

definition rowStroke :: "real \<Rightarrow> bool list layer \<Rightarrow> bool list" where
  "rowStroke dpr l =
     map (\<lambda>i. if list_ex (\<lambda>c. case c of LineTo (Num x) (Num y) \<Rightarrow> 0 \<le> x \<and> nat \<lfloor>x * dpr\<rfloor> = i
                                     | _ \<Rightarrow> False) (path l)
              then globalCompositeOperation l = SourceOver
              else pixels l ! i) [0..<length (pixels l)]"

definition rowLoad :: "string \<Rightarrow> bool list option" where
  "rowLoad s =
     (if s \<noteq> [] \<and> list_all (\<lambda>c. c = CHR ''0'' \<or> c = CHR ''1'') s
      then Some (map (\<lambda>c. c = CHR ''1'') s) else None)"

definition rowBrowser :: "real \<Rightarrow> real \<Rightarrow> bool list browser" where
  "rowBrowser w dpr = \<lparr>blank = replicate (bufferWidth w dpr) False,
     clearRect = map (\<lambda>b. False),
     drawImage = (\<lambda>src dst. map2 (\<or>) (resample (drawnWidth w dpr) src (length dst)) dst),
     stroke = rowStroke dpr,
     toDataURL = map (\<lambda>b. if b then CHR ''1'' else CHR ''0''),
     loadImage = rowLoad,
     validColor = (\<lambda>c. c \<noteq> []),
     rectLeft = 0, rectTop = 0\<rparr>"

text \<open>
  Example states on this raster. \<open>tick x\<close>: a local gesture that stays at \<open>x\<close>.
  \<open>rowPeers\<close>: on a canvas four pixels wide the local user \<open>u1\<close> has inked pixel 0,
  \<open>u2\<close> pixel 1 and \<open>u3\<close> pixel 2. \<open>aligned\<close> and \<open>stretched\<close>: one local tick at
  pixel 2, on a canvas whose \<open>rect.width\<close> is 4 and 4.9 (buffer width 4 both times).
\<close>

definition tick :: "real \<Rightarrow> gesture" where
  "tick x = \<lparr>gDown = click x 0, gMoves = [click x 0], gUp = click x 0\<rparr>"

definition remoteTick :: "'img browser \<Rightarrow> string \<Rightarrow> real \<Rightarrow> 'img manager \<Rightarrow> 'img manager" where
  "remoteTick B u x m =
     fst (applyRemoteDrawing B (pen u ''brush'' ''end'' x)
       (fst (applyRemoteDrawing B (pen u ''brush'' ''move'' x)
         (fst (applyRemoteDrawing B (pen u ''brush'' ''start'' x) m)))))"

definition rowPeers :: "bool list app" where
  "rowPeers = \<lparr>canvasManager =
       remoteTick (rowBrowser 4 1) ''u3'' 2
         (remoteTick (rowBrowser 4 1) ''u2'' 1
           (strokeGesture (rowBrowser 4 1) (tick 0) (newManager (rowBrowser 4 1)))),
     appUserId = ''u1'', wsUserId = Str ''u1''\<rparr>"

definition aligned :: "bool list manager" where
  "aligned = strokes (rowBrowser 4 1) [tick 2] (newManager (rowBrowser 4 1))"

definition stretched :: "bool list manager" where
  "stretched = strokes (rowBrowser 4.9 1) [tick 2] (newManager (rowBrowser 4.9 1))"

section \<open>Frame lemmas\<close>

lemma map_of_retag:
  "map_of (map (\<lambda>(k, l). if k = u then (k, f l) else (k, l)) xs) v =
     (if v = u then map_option f (map_of xs u) else map_of xs v)"
  by (induction xs) auto

lemma updateRemote_map_of:
  "map_of (remoteCanvases (updateRemote u f m)) v =
     (if v = u then map_option f (map_of (remoteCanvases m) u) else map_of (remoteCanvases m) v)"
  by (simp add: updateRemote_def map_of_retag)

lemma updateRemote_keys:
  "map fst (remoteCanvases (updateRemote u f m)) = map fst (remoteCanvases m)"
  by (simp add: updateRemote_def) (induction "remoteCanvases m", auto)

lemma updateRemote_frame [simp]:
  "userCanvas (updateRemote u f m) = userCanvas m"
  "display (updateRemote u f m) = display m"
  "undoStack (updateRemote u f m) = undoStack m"
  "redoStack (updateRemote u f m) = redoStack m"
  "console (updateRemote u f m) = console m"
  "drawing (updateRemote u f m) = drawing m"
  by (simp_all add: updateRemote_def)

lemma composeLayers_frame [simp]:
  "userCanvas (composeLayers B m) = userCanvas m"
  "remoteCanvases (composeLayers B m) = remoteCanvases m"
  "undoStack (composeLayers B m) = undoStack m"
  "redoStack (composeLayers B m) = redoStack m"
  "console (composeLayers B m) = console m"
  "drawing (composeLayers B m) = drawing m"
  "display (composeLayers B m) = composed B (display m) (userCanvas m) (remoteCanvases m)"
  by (simp_all add: composeLayers_def)

lemma getOrCreate_frame [simp]:
  "userCanvas (getOrCreateRemoteCanvas B u m) = userCanvas m"
  "display (getOrCreateRemoteCanvas B u m) = display m"
  "undoStack (getOrCreateRemoteCanvas B u m) = undoStack m"
  "redoStack (getOrCreateRemoteCanvas B u m) = redoStack m"
  "console (getOrCreateRemoteCanvas B u m) = console m"
  "drawing (getOrCreateRemoteCanvas B u m) = drawing m"
  by (simp_all add: getOrCreateRemoteCanvas_def)


lemma pushUndo_frame [simp]:
  "userCanvas (pushUndo B m) = userCanvas m"
  "remoteCanvases (pushUndo B m) = remoteCanvases m"
  "display (pushUndo B m) = display m"
  "redoStack (pushUndo B m) = redoStack m"
  "console (pushUndo B m) = console m"
  "drawing (pushUndo B m) = drawing m"
  "mode (pushUndo B m) = mode m"
  by (simp_all add: pushUndo_def Let_def)

lemma pushUndo_nonempty: "undoStack (pushUndo B m) \<noteq> []"
  by (simp add: pushUndo_def Let_def)

lemma pushUndo_length:
  "length (undoStack (pushUndo B m)) =
     (if MAX_STACK \<le> length (undoStack m) then length (undoStack m) else Suc (length (undoStack m)))"
  by (auto simp: pushUndo_def Let_def MAX_STACK_def)

lemma pushUndo_fifo:
  "length (undoStack m) \<le> MAX_STACK \<Longrightarrow>
     undoStack (pushUndo B m) =
       drop (Suc (length (undoStack m)) - MAX_STACK) (undoStack m @ [toDataURL B (pixels (userCanvas m))])"
  by (cases "undoStack m") (auto simp: pushUndo_def Let_def MAX_STACK_def)


lemma applyDataUrl_stacks [simp]:
  "undoStack (fst (applyDataUrl B d m)) = undoStack m"
  "redoStack (fst (applyDataUrl B d m)) = redoStack m"
  "remoteCanvases (fst (applyDataUrl B d m)) = remoteCanvases m"
  "drawing (fst (applyDataUrl B d m)) = drawing m"
  by (simp_all add: applyDataUrl_def split: option.splits)

lemma applyDataUrl_loaded:
  "loadImage B d = Some img \<Longrightarrow>
     applyDataUrl B d m = (composeLayers B (m\<lparr>userCanvas := drawLoaded B img (userCanvas m)\<rparr>), Resolved ())"
  by (simp add: applyDataUrl_def)

lemma applyDataUrl_failed:
  "loadImage B d = None \<Longrightarrow>
     applyDataUrl B d m = (m\<lparr>console := console m @ [''Failed to apply canvas data'']\<rparr>,
                           Rejected ''Failed to load image'')"
  by (simp add: applyDataUrl_def)

lemma drawLoaded_pixels [simp]:
  "pixels (drawLoaded B img l) = drawImage B img (clearRect B (pixels l))"
  by (simp add: drawLoaded_def clearLayer_def)

lemma undo_empty: "undoStack m = [] \<Longrightarrow> undo B m = (m, Resolved False)"
  by (simp add: undo_def)

lemma redo_empty: "redoStack m = [] \<Longrightarrow> redo B m = (m, Resolved False)"
  by (simp add: redo_def)

lemma undo_stacks:
  "undoStack m \<noteq> [] \<Longrightarrow>
     undoStack (fst (undo B m)) = butlast (undoStack m) \<and>
     redoStack (fst (undo B m)) = redoStack m @ [toDataURL B (pixels (userCanvas m))] \<and>
     remoteCanvases (fst (undo B m)) = remoteCanvases m"
  by (simp add: undo_def Let_def)

lemma redo_stacks:
  "redoStack m \<noteq> [] \<Longrightarrow>
     redoStack (fst (redo B m)) = butlast (redoStack m) \<and>
     undoStack (fst (redo B m)) = undoStack m @ [toDataURL B (pixels (userCanvas m))] \<and>
     remoteCanvases (fst (redo B m)) = remoteCanvases m"
  by (simp add: redo_def Let_def)

lemma undo_loaded:
  "undoStack m \<noteq> [] \<Longrightarrow> loadImage B (last (undoStack m)) = Some img \<Longrightarrow>
     snd (undo B m) = Resolved True \<and>
     userCanvas (fst (undo B m)) = drawLoaded B img (userCanvas m)"
  by (simp add: undo_def Let_def applyDataUrl_loaded)

lemma redo_loaded:
  "redoStack m \<noteq> [] \<Longrightarrow> loadImage B (last (redoStack m)) = Some img \<Longrightarrow>
     snd (redo B m) = Resolved True \<and>
     userCanvas (fst (redo B m)) = drawLoaded B img (userCanvas m)"
  by (simp add: redo_def Let_def applyDataUrl_loaded)

lemma undo_failed:
  "undoStack m \<noteq> [] \<Longrightarrow> loadImage B (last (undoStack m)) = None \<Longrightarrow>
     snd (undo B m) = Rejected ''Failed to load image'' \<and>
     userCanvas (fst (undo B m)) = userCanvas m \<and>
     display (fst (undo B m)) = display m"
  by (simp add: undo_def Let_def applyDataUrl_failed)

lemma redo_failed:
  "redoStack m \<noteq> [] \<Longrightarrow> loadImage B (last (redoStack m)) = None \<Longrightarrow>
     snd (redo B m) = Rejected ''Failed to load image'' \<and>
     userCanvas (fst (redo B m)) = userCanvas m \<and>
     display (fst (redo B m)) = display m"
  by (simp add: redo_def Let_def applyDataUrl_failed)

lemma handlePointerDown_primary:
  "primary e \<Longrightarrow>
     drawing (handlePointerDown B e m) \<and>
     undoStack (handlePointerDown B e m) = undoStack (pushUndo B m) \<and>
     redoStack (handlePointerDown B e m) = redoStack m \<and>
     remoteCanvases (handlePointerDown B e m) = remoteCanvases m"
  by (auto simp: handlePointerDown_def primary_def Let_def split: option.splits)

lemma handlePointerMove_frame [simp]:
  "drawing (handlePointerMove B e m) = drawing m"
  "undoStack (handlePointerMove B e m) = undoStack m"
  "redoStack (handlePointerMove B e m) = redoStack m"
  "remoteCanvases (handlePointerMove B e m) = remoteCanvases m"
  by (simp_all add: handlePointerMove_def Let_def)

lemma moves_frame [simp]:
  "drawing (foldl (\<lambda>s e. handlePointerMove B e s) m es) = drawing m"
  "undoStack (foldl (\<lambda>s e. handlePointerMove B e s) m es) = undoStack m"
  "redoStack (foldl (\<lambda>s e. handlePointerMove B e s) m es) = redoStack m"
  "remoteCanvases (foldl (\<lambda>s e. handlePointerMove B e s) m es) = remoteCanvases m"
  by (induction es arbitrary: m) simp_all

lemma handlePointerUp_drawing:
  "drawing m \<Longrightarrow>
     redoStack (handlePointerUp B e m) = [] \<and>
     undoStack (handlePointerUp B e m) = undoStack m \<and>
     \<not> drawing (handlePointerUp B e m)"
  by (simp add: handlePointerUp_def)

lemma strokeGesture_stacks:
  "primary (gDown g) \<Longrightarrow>
     redoStack (strokeGesture B g m) = [] \<and>
     undoStack (strokeGesture B g m) = undoStack (pushUndo B m)"
  by (simp add: strokeGesture_def handlePointerUp_drawing handlePointerDown_primary)

lemma ctx_setters_gco [simp]:
  "globalCompositeOperation (setLineWidth w l) = globalCompositeOperation l"
  "globalCompositeOperation (setStrokeStyle B c l) = globalCompositeOperation l"
  "globalCompositeOperation (beginPath l) = globalCompositeOperation l"
  "globalCompositeOperation (moveTo x y l) = globalCompositeOperation l"
  "globalCompositeOperation (lineTo x y l) = globalCompositeOperation l"
  "globalCompositeOperation (closePath l) = globalCompositeOperation l"
  "globalCompositeOperation (strokeCtx B l) = globalCompositeOperation l"
  by (simp_all add: setLineWidth_def setStrokeStyle_def beginPath_def moveTo_def lineTo_def
      closePath_def strokeCtx_def split: jsnum.splits)

lemma ctx_setters_pixels [simp]:
  "pixels (setLineWidth w l) = pixels l"
  "pixels (setStrokeStyle B c l) = pixels l"
  "pixels (beginPath l) = pixels l"
  "pixels (moveTo x y l) = pixels l"
  "pixels (lineTo x y l) = pixels l"
  "pixels (closePath l) = pixels l"
  by (simp_all add: setLineWidth_def setStrokeStyle_def beginPath_def moveTo_def lineTo_def
      closePath_def split: jsnum.splits)








lemma clearRemoteCanvas_frame:
  "userCanvas (clearRemoteCanvas B uid m) = userCanvas m \<and>
   undoStack (clearRemoteCanvas B uid m) = undoStack m \<and>
   redoStack (clearRemoteCanvas B uid m) = redoStack m \<and>
   map fst (remoteCanvases (clearRemoteCanvas B uid m)) = map fst (remoteCanvases m)"
  by (simp add: clearRemoteCanvas_def updateRemote_keys split: jsval.splits)

lemma clearRemoteCanvas_others:
  "Str v \<noteq> uid \<Longrightarrow>
     map_of (remoteCanvases (clearRemoteCanvas B uid m)) v = map_of (remoteCanvases m) v"
  by (auto simp: clearRemoteCanvas_def updateRemote_map_of split: jsval.splits)

lemma clearRemoteCanvas_author:
  "u \<noteq> [] \<Longrightarrow> map_of (remoteCanvases m) u = Some l \<Longrightarrow>
     map_of (remoteCanvases (clearRemoteCanvas B (Str u) m)) u = Some (l\<lparr>pixels := clearRect B (pixels l)\<rparr>) \<and>
     display (clearRemoteCanvas B (Str u) m) =
       composed B (display m) (userCanvas m) (remoteCanvases (clearRemoteCanvas B (Str u) m))"
  by (simp add: clearRemoteCanvas_def updateRemote_map_of clearLayer_def)

section \<open>History lemmas\<close>

lemma strokes_nonempty:
  "gs \<noteq> [] \<Longrightarrow> \<forall>g\<in>set gs. primary (gDown g) \<Longrightarrow> undoStack (strokes B gs m) \<noteq> []"
proof (induction gs arbitrary: m rule: rev_induct)
  case Nil
  then show ?case by simp
next
  case (snoc g gs)
  then have "primary (gDown g)" by simp
  then show ?case
    by (simp add: strokes_def strokeGesture_stacks pushUndo_nonempty)
qed

lemma strokes_length:
  "\<forall>g\<in>set gs. primary (gDown g) \<Longrightarrow> length (undoStack m) \<le> MAX_STACK \<Longrightarrow>
     length (undoStack (strokes B gs m)) = min MAX_STACK (length (undoStack m) + length gs)"
proof (induction gs arbitrary: m)
  case Nil
  then show ?case by (simp add: strokes_def)
next
  case (Cons g gs)
  have step: "length (undoStack (strokeGesture B g m)) = min MAX_STACK (Suc (length (undoStack m)))"
    using Cons.prems by (auto simp: strokeGesture_stacks pushUndo_length)
  have "strokes B (g # gs) m = strokes B gs (strokeGesture B g m)"
    by (simp add: strokes_def)
  moreover have "length (undoStack (strokes B gs (strokeGesture B g m))) =
      min MAX_STACK (length (undoStack (strokeGesture B g m)) + length gs)"
    using Cons.prems by (intro Cons.IH) (auto simp: step)
  ultimately show ?case using Cons.prems by (auto simp: step)
qed

lemma strokes_redo_empty:
  "gs \<noteq> [] \<Longrightarrow> \<forall>g\<in>set gs. primary (gDown g) \<Longrightarrow> redoStack (strokes B gs m) = []"
  by (induction gs arbitrary: m rule: rev_induct) (simp_all add: strokes_def strokeGesture_stacks)

lemma primary_click: "primary (click x y)"
  by (simp add: primary_def click_def)

lemma fullHistory_length: "length (undoStack fullHistory) = 50 \<and> redoStack fullHistory = []"
  unfolding fullHistory_def
  using strokes_length [of "replicate 50 dash" "newManager bitBrowser" bitBrowser]
    strokes_redo_empty [of "replicate 50 dash" bitBrowser "newManager bitBrowser"]
  by (simp add: dash_def primary_click newManager_def MAX_STACK_def)

lemma perform_bounded:
  "length (undoStack m) + length (redoStack m) \<le> MAX_STACK \<Longrightarrow>
     length (undoStack (perform B x m)) + length (redoStack (perform B x m)) \<le> MAX_STACK"
proof (cases x)
  case (Draw g)
  assume le: "length (undoStack m) + length (redoStack m) \<le> MAX_STACK"
  show ?thesis
  proof (cases "primary (gDown g)")
    case True
    then show ?thesis using le Draw
      by (auto simp: strokeGesture_stacks pushUndo_length)
  next
    case False
    then have "handlePointerDown B (gDown g) m = m"
      by (auto simp: handlePointerDown_def primary_def split: option.splits)
    then show ?thesis using le Draw
      by (cases "drawing m") (simp_all add: strokeGesture_def handlePointerUp_def)
  qed
next
  case Clear
  assume "length (undoStack m) + length (redoStack m) \<le> MAX_STACK"
  then show ?thesis using Clear
    by (auto simp: clear_def Let_def pushUndo_length)
next
  case Undo
  assume "length (undoStack m) + length (redoStack m) \<le> MAX_STACK"
  then show ?thesis using Undo
    by (cases "undoStack m") (simp_all add: undo_empty undo_stacks)
next
  case Redo
  assume "length (undoStack m) + length (redoStack m) \<le> MAX_STACK"
  then show ?thesis using Redo
    by (cases "redoStack m") (simp_all add: redo_empty redo_stacks)
qed

lemma completed_actions_bounded:
  "length (undoStack m) + length (redoStack m) \<le> MAX_STACK \<Longrightarrow>
     length (undoStack (foldl (\<lambda>s x. perform B x s) m xs)) +
     length (redoStack (foldl (\<lambda>s x. perform B x s) m xs)) \<le> MAX_STACK"
  by (induction xs arbitrary: m) (simp_all add: perform_bounded)

section \<open>Malformed inbound events that are dropped\<close>

lemma drawing_without_userId_dropped:
  "\<not> truthy (userId d) \<Longrightarrow>
     applyRemoteDrawing B d m = (m\<lparr>console := console m @ [''Drawing data missing userId:'']\<rparr>, None)"
  by (cases "userId d") (simp_all add: applyRemoteDrawing_def)

lemma undecodable_remote_snapshot_logged:
  "u \<noteq> [] \<Longrightarrow> d \<noteq> [] \<Longrightarrow> loadImage B d = None \<Longrightarrow> map_of (remoteCanvases m) u = Some l \<Longrightarrow>
     updateRemoteCanvas B (Str u) (Str d) m =
       m\<lparr>console := console m @ [''Failed to load image for remote canvas update'']\<rparr>"
  by (simp add: updateRemoteCanvas_def getOrCreateRemoteCanvas_def Let_def)

section \<open>Evaluation on the concrete browser\<close>

lemmas run_defs =
  newLayer_def setLineWidth_def setStrokeStyle_def beginPath_def moveTo_def lineTo_def
  closePath_def strokeCtx_def clearLayer_def drawLoaded_def newManager_def updateRemote_def
  getOrCreateRemoteCanvas_def composed_def composeLayers_def getPointerPos_def pushUndo_def
  handlePointerDown_def handlePointerMove_def handlePointerUp_def setMode_def applyDataUrl_def
  undo_def redo_def clear_def clearRemoteCanvas_def updateRemoteCanvas_def
  applyRemoteDrawing_def getCanvasData_def loadCanvasData_def onDrawing_def onCanvasState_def
  onClearCanvas_def onUndoRedo_def primary_def strokeGesture_def strokes_def restores_def
  bitStroke_def bitLoad_def bitBrowser_def click_def dash_def pen_def remoteDash_def
  MAX_STACK_def Let_def

lemma replicate_numeral_unfold: "replicate (numeral k) x = x # replicate (pred_numeral k) x"
  by (simp add: numeral_eq_Suc)

lemmas row_defs =
  bufferWidth_def drawnWidth_def resample_def rowStroke_def rowLoad_def rowBrowser_def
  tick_def remoteTick_def upt_conv_Cons replicate_numeral_unfold

section \<open>The geometric raster: when a redraw is exact\<close>

lemma resample_same:
  assumes "length src = n"
  shows "resample (real n) src n = src"
proof (rule nth_equalityI)
  show "length (resample (real n) src n) = length src"
    using assms by (simp add: resample_def)
next
  fix i assume "i < length (resample (real n) src n)"
  then have i: "i < n"
    by (simp add: resample_def)
  then have "(real i + 1 / 2) * real n / real n = real i + 1 / 2"
    by simp
  moreover have "\<lfloor>real i + 1 / 2\<rfloor> = int i"
    by linarith
  ultimately have "nat \<lfloor>(real i + 1 / 2) * real (length src) / real n\<rfloor> = i"
    using assms by simp
  then show "resample (real n) src n ! i = src ! i"
    using i assms by (simp add: resample_def Let_def)
qed

lemma resample_blank: "resample dw (map (\<lambda>b. False) p) n = replicate n False"
  by (rule nth_equalityI) (simp_all add: resample_def Let_def)

lemma map2_or_blank: "map2 (\<or>) (replicate (length dst) False) dst = dst"
  by (induction dst) simp_all

lemma map2_or_onto_blank:
  "length src = length q \<Longrightarrow> map2 (\<or>) src (map (\<lambda>b. False) q) = src"
proof (induction src arbitrary: q)
  case Nil
  then show ?case by simp
next
  case (Cons a src)
  then show ?case by (cases q) simp_all
qed

lemma encoded_bits:
  "list_all (\<lambda>c. c = CHR ''0'' \<or> c = CHR ''1'') (map (\<lambda>b. if b then CHR ''1'' else CHR ''0'') p)"
  by (induction p) simp_all

lemma decoded_bits:
  "map (\<lambda>c. c = CHR ''1'') (map (\<lambda>b. if b then CHR ''1'' else CHR ''0'') p) = p"
  by (induction p) simp_all

lemma rowLoad_toDataURL:
  "p \<noteq> [] \<Longrightarrow> rowLoad (map (\<lambda>b. if b then CHR ''1'' else CHR ''0'') p) = Some p"
  unfolding rowLoad_def using encoded_bits [of p] decoded_bits [of p] by simp

lemma rowBrowser_transparent:
  "drawImage (rowBrowser w dpr) (clearRect (rowBrowser w dpr) p) acc = acc"
  by (simp add: rowBrowser_def resample_blank map2_or_blank)

text \<open>
  When the drawn width \<open>rect.width * dpr\<close> is the buffer width, redrawing a layer's own
  snapshot over a cleared buffer of that width reproduces the layer.
\<close>

lemma rowBrowser_lossless:
  assumes "w * dpr = real n" and "0 < n" and "length p = n" and "length q = n"
  shows "restores (rowBrowser w dpr) (toDataURL (rowBrowser w dpr) p) q p"
proof -
  have "p \<noteq> []"
    using assms by auto
  then have "loadImage (rowBrowser w dpr) (toDataURL (rowBrowser w dpr) p) = Some p"
    by (simp add: rowBrowser_def rowLoad_toDataURL)
  moreover have "drawImage (rowBrowser w dpr) p (clearRect (rowBrowser w dpr) q) = p"
    using assms by (simp add: rowBrowser_def drawnWidth_def resample_same map2_or_onto_blank)
  ultimately show ?thesis
    by (simp add: restores_def)
qed

lemma foldl_draw_cleared:
  assumes "\<forall>p acc. drawImage B (clearRect B p) acc = acc"
  shows "foldl (\<lambda>acc (k, c). drawImage B (pixels c) acc) a
           (map (\<lambda>(k, c). if k = u then (k, c\<lparr>pixels := clearRect B (pixels c)\<rparr>) else (k, c)) xs) =
         foldl (\<lambda>acc (k, c). drawImage B (pixels c) acc) a (filter (\<lambda>(k, c). k \<noteq> u) xs)"
  using assms by (induction xs arbitrary: a) auto

lemma clearRemoteCanvas_layers:
  "u \<noteq> [] \<Longrightarrow> map_of (remoteCanvases m) u = Some l \<Longrightarrow>
     remoteCanvases (clearRemoteCanvas B (Str u) m) =
       map (\<lambda>(k, c). if k = u then (k, c\<lparr>pixels := clearRect B (pixels c)\<rparr>) else (k, c))
         (remoteCanvases m) \<and>
     display (clearRemoteCanvas B (Str u) m) =
       foldl (\<lambda>acc (k, c). drawImage B (pixels c) acc)
         (drawImage B (pixels (userCanvas m)) (clearRect B (display m)))
         (remoteCanvases (clearRemoteCanvas B (Str u) m))"
  by (auto simp: clearRemoteCanvas_def updateRemote_def composed_def clearLayer_def)

section \<open>Layer isolation\<close>



text \<open>
  C8. An inbound clear event from an author other than the local user leaves the local
  layer, both history stacks, the set and order of remote layers and every other
  author's layer unchanged. If the author has a layer, exactly its pixel buffer is
  cleared, and the display is repainted: the cleared display, the local layer drawn
  over it, then every remote layer in order, the author's now cleared. Where drawing a
  cleared buffer paints nothing, that display is the one composed from the local layer
  and the other authors' layers alone.
\<close>

theorem remote_clear_wipes_only_author:
  assumes "uid \<noteq> Str (appUserId a)"
    and "m = canvasManager a" and "m' = canvasManager (onClearCanvas B uid a)"
  shows "userCanvas m' = userCanvas m \<and> undoStack m' = undoStack m \<and> redoStack m' = redoStack m \<and>
         map fst (remoteCanvases m') = map fst (remoteCanvases m) \<and>
         (\<forall>v. Str v \<noteq> uid \<longrightarrow> map_of (remoteCanvases m') v = map_of (remoteCanvases m) v) \<and>
         (\<forall>u l. uid = Str u \<and> u \<noteq> [] \<and> map_of (remoteCanvases m) u = Some l \<longrightarrow>
            map_of (remoteCanvases m') u = Some (l\<lparr>pixels := clearRect B (pixels l)\<rparr>) \<and>
            remoteCanvases m' =
              map (\<lambda>(k, c). if k = u then (k, c\<lparr>pixels := clearRect B (pixels c)\<rparr>) else (k, c))
                (remoteCanvases m) \<and>
            display m' =
              foldl (\<lambda>acc (k, c). drawImage B (pixels c) acc)
                (drawImage B (pixels (userCanvas m)) (clearRect B (display m)))
                (remoteCanvases m') \<and>
            ((\<forall>p acc. drawImage B (clearRect B p) acc = acc) \<longrightarrow>
               display m' =
                 foldl (\<lambda>acc (k, c). drawImage B (pixels c) acc)
                   (drawImage B (pixels (userCanvas m)) (clearRect B (display m)))
                   (filter (\<lambda>(k, c). k \<noteq> u) (remoteCanvases m))))"
proof -
  have m': "m' = clearRemoteCanvas B uid m"
    using assms by (simp add: onClearCanvas_def)
  have frame: "userCanvas m' = userCanvas m" "undoStack m' = undoStack m" "redoStack m' = redoStack m"
    "map fst (remoteCanvases m') = map fst (remoteCanvases m)"
    using clearRemoteCanvas_frame [of B uid m] by (simp_all add: m')
  have others: "\<forall>v. Str v \<noteq> uid \<longrightarrow> map_of (remoteCanvases m') v = map_of (remoteCanvases m) v"
    by (simp add: m' clearRemoteCanvas_others)
  have wipe: "\<forall>u l. uid = Str u \<and> u \<noteq> [] \<and> map_of (remoteCanvases m) u = Some l \<longrightarrow>
      map_of (remoteCanvases m') u = Some (l\<lparr>pixels := clearRect B (pixels l)\<rparr>) \<and>
      remoteCanvases m' =
        map (\<lambda>(k, c). if k = u then (k, c\<lparr>pixels := clearRect B (pixels c)\<rparr>) else (k, c))
          (remoteCanvases m) \<and>
      display m' =
        foldl (\<lambda>acc (k, c). drawImage B (pixels c) acc)
          (drawImage B (pixels (userCanvas m)) (clearRect B (display m)))
          (remoteCanvases m') \<and>
      ((\<forall>p acc. drawImage B (clearRect B p) acc = acc) \<longrightarrow>
         display m' =
           foldl (\<lambda>acc (k, c). drawImage B (pixels c) acc)
             (drawImage B (pixels (userCanvas m)) (clearRect B (display m)))
             (filter (\<lambda>(k, c). k \<noteq> u) (remoteCanvases m)))"
  proof (intro allI impI, elim conjE)
    fix u l
    assume uid: "uid = Str u" and u: "u \<noteq> []" and l: "map_of (remoteCanvases m) u = Some l"
    have mu: "m' = clearRemoteCanvas B (Str u) m"
      by (simp add: m' uid)
    have entry: "map_of (remoteCanvases m') u = Some (l\<lparr>pixels := clearRect B (pixels l)\<rparr>)"
      using clearRemoteCanvas_author [OF u l, of B] by (simp add: mu)
    have layers: "remoteCanvases m' =
        map (\<lambda>(k, c). if k = u then (k, c\<lparr>pixels := clearRect B (pixels c)\<rparr>) else (k, c))
          (remoteCanvases m)"
      using clearRemoteCanvas_layers [OF u l, of B] by (simp add: mu)
    have shown: "display m' =
        foldl (\<lambda>acc (k, c). drawImage B (pixels c) acc)
          (drawImage B (pixels (userCanvas m)) (clearRect B (display m)))
          (remoteCanvases m')"
      using clearRemoteCanvas_layers [OF u l, of B] by (simp add: mu)
    have without: "(\<forall>p acc. drawImage B (clearRect B p) acc = acc) \<longrightarrow>
        display m' =
          foldl (\<lambda>acc (k, c). drawImage B (pixels c) acc)
            (drawImage B (pixels (userCanvas m)) (clearRect B (display m)))
            (filter (\<lambda>(k, c). k \<noteq> u) (remoteCanvases m))"
    proof
      assume "\<forall>p acc. drawImage B (clearRect B p) acc = acc"
      then show "display m' =
          foldl (\<lambda>acc (k, c). drawImage B (pixels c) acc)
            (drawImage B (pixels (userCanvas m)) (clearRect B (display m)))
            (filter (\<lambda>(k, c). k \<noteq> u) (remoteCanvases m))"
        unfolding shown layers by (rule foldl_draw_cleared)
    qed
    show "map_of (remoteCanvases m') u = Some (l\<lparr>pixels := clearRect B (pixels l)\<rparr>) \<and>
      remoteCanvases m' =
        map (\<lambda>(k, c). if k = u then (k, c\<lparr>pixels := clearRect B (pixels c)\<rparr>) else (k, c))
          (remoteCanvases m) \<and>
      display m' =
        foldl (\<lambda>acc (k, c). drawImage B (pixels c) acc)
          (drawImage B (pixels (userCanvas m)) (clearRect B (display m)))
          (remoteCanvases m') \<and>
      ((\<forall>p acc. drawImage B (clearRect B p) acc = acc) \<longrightarrow>
         display m' =
           foldl (\<lambda>acc (k, c). drawImage B (pixels c) acc)
             (drawImage B (pixels (userCanvas m)) (clearRect B (display m)))
             (filter (\<lambda>(k, c). k \<noteq> u) (remoteCanvases m)))"
      using entry layers shown without by (intro conjI)
  qed
  show ?thesis
    apply (insert frame others wipe)
    apply (intro conjI)
         apply assumption
        apply assumption
       apply assumption
      apply assumption
     apply assumption
    apply assumption
    done
qed

text \<open>
  On the four-pixel canvas the local user has inked pixel 0, \<open>u2\<close> pixel 1 and \<open>u3\<close>
  pixel 2, and the display shows all three. After the clear event from \<open>u2\<close> the layer
  of \<open>u2\<close> is blank, the other two layers are as before, and the display has lost
  pixel 1 and kept pixels 0 and 2.
\<close>

theorem remote_clear_wipes_only_author_witness:
  "Str ''u2'' \<noteq> Str (appUserId rowPeers) \<and>
   (\<forall>p acc. drawImage (rowBrowser 4 1) (clearRect (rowBrowser 4 1) p) acc = acc) \<and>
   pixels (userCanvas (canvasManager rowPeers)) = [True, False, False, False] \<and>
   map (\<lambda>(k, c). (k, pixels c)) (remoteCanvases (canvasManager rowPeers)) =
     [(''u2'', [False, True, False, False]), (''u3'', [False, False, True, False])] \<and>
   display (canvasManager rowPeers) = [True, True, True, False] \<and>
   userCanvas (canvasManager (onClearCanvas (rowBrowser 4 1) (Str ''u2'') rowPeers)) =
     userCanvas (canvasManager rowPeers) \<and>
   map_of (remoteCanvases (canvasManager (onClearCanvas (rowBrowser 4 1) (Str ''u2'') rowPeers))) ''u3'' =
     map_of (remoteCanvases (canvasManager rowPeers)) ''u3'' \<and>
   map (\<lambda>(k, c). (k, pixels c))
     (remoteCanvases (canvasManager (onClearCanvas (rowBrowser 4 1) (Str ''u2'') rowPeers))) =
     [(''u2'', [False, False, False, False]), (''u3'', [False, False, True, False])] \<and>
   display (canvasManager (onClearCanvas (rowBrowser 4 1) (Str ''u2'') rowPeers)) =
     [True, False, True, False]"
proof -
  let ?B = "rowBrowser 4 1"
  let ?m = "canvasManager rowPeers"
  let ?m' = "canvasManager (onClearCanvas ?B (Str ''u2'') rowPeers)"
  have hyp: "Str ''u2'' \<noteq> Str (appUserId rowPeers)"
    by (simp add: rowPeers_def)
  have law: "\<forall>p acc. drawImage ?B (clearRect ?B p) acc = acc"
    by (simp add: rowBrowser_transparent)
  have own: "pixels (userCanvas ?m) = [True, False, False, False]"
    and shown: "display ?m = [True, True, True, False]"
    by (simp_all add: rowPeers_def run_defs row_defs)
  obtain l2 l3 where layers: "remoteCanvases ?m = [(''u2'', l2), (''u3'', l3)]"
    and ink: "pixels l2 = [False, True, False, False]" "pixels l3 = [False, False, True, False]"
    by (simp add: rowPeers_def run_defs row_defs)
  have l2: "map_of (remoteCanvases ?m) ''u2'' = Some l2"
    by (simp add: layers)
  have u2: "Str ''u2'' = Str ''u2'' \<and> ''u2'' \<noteq> [] \<and> map_of (remoteCanvases ?m) ''u2'' = Some l2"
    using l2 by simp
  have paint: "drawImage ?B [False, False, True, False]
      (drawImage ?B [True, False, False, False] (clearRect ?B [True, True, True, False])) =
      [True, False, True, False]"
    by (simp add: row_defs)
  note T = remote_clear_wipes_only_author [OF hyp refl refl, of ?B]
  have same: "userCanvas ?m' = userCanvas ?m"
    using T by (rule conjunct1)
  note T' = T [THEN conjunct2, THEN conjunct2, THEN conjunct2, THEN conjunct2]
  have u3: "map_of (remoteCanvases ?m') ''u3'' = map_of (remoteCanvases ?m) ''u3''"
    using T' [THEN conjunct1, rule_format, of "''u3''"] by simp
  note W = T' [THEN conjunct2, rule_format, OF u2]
  have cleared: "remoteCanvases ?m' =
       map (\<lambda>(k, c). if k = ''u2'' then (k, c\<lparr>pixels := clearRect ?B (pixels c)\<rparr>) else (k, c))
         (remoteCanvases ?m)"
    using W by (elim conjE)
  have repainted: "display ?m' =
       foldl (\<lambda>acc (k, c). drawImage ?B (pixels c) acc)
         (drawImage ?B (pixels (userCanvas ?m)) (clearRect ?B (display ?m)))
         (filter (\<lambda>(k, c). k \<noteq> ''u2'') (remoteCanvases ?m))"
    using W law by (elim conjE impE)
  have "map (\<lambda>(k, c). (k, pixels c)) (remoteCanvases ?m') =
      [(''u2'', [False, False, False, False]), (''u3'', [False, False, True, False])]"
    unfolding cleared layers by (simp add: ink rowBrowser_def)
  moreover have "display ?m' = [True, False, True, False]"
    unfolding repainted layers by (simp add: ink own shown paint)
  ultimately show ?thesis
    using hyp law own shown layers ink same u3 by simp
qed

section \<open>Undo and redo\<close>

text \<open>
  C6. \<open>undo()\<close> on an empty \<open>undoStack\<close> resolves to \<open>false\<close> and changes nothing, and
  so does \<open>redo()\<close> on an empty \<open>redoStack\<close>. Otherwise \<open>undo()\<close> pushes the snapshot
  of the current local layer onto \<open>redoStack\<close> and pops the top of \<open>undoStack\<close>; when
  the popped snapshot decodes, it replaces the local layer's pixels by the popped image
  drawn over the cleared buffer and resolves to \<open>true\<close>. \<open>redo()\<close> is the mirror.
\<close>

theorem undo_redo_contract:
  "(undoStack m = [] \<longrightarrow> undo B m = (m, Resolved False)) \<and>
   (redoStack m = [] \<longrightarrow> redo B m = (m, Resolved False)) \<and>
   (undoStack m \<noteq> [] \<longrightarrow>
      redoStack (fst (undo B m)) = redoStack m @ [toDataURL B (pixels (userCanvas m))] \<and>
      undoStack (fst (undo B m)) = butlast (undoStack m)) \<and>
   (undoStack m \<noteq> [] \<and> loadImage B (last (undoStack m)) = Some img \<longrightarrow>
      snd (undo B m) = Resolved True \<and>
      pixels (userCanvas (fst (undo B m))) = drawImage B img (clearRect B (pixels (userCanvas m)))) \<and>
   (redoStack m \<noteq> [] \<longrightarrow>
      undoStack (fst (redo B m)) = undoStack m @ [toDataURL B (pixels (userCanvas m))] \<and>
      redoStack (fst (redo B m)) = butlast (redoStack m)) \<and>
   (redoStack m \<noteq> [] \<and> loadImage B (last (redoStack m)) = Some img' \<longrightarrow>
      snd (redo B m) = Resolved True \<and>
      pixels (userCanvas (fst (redo B m))) = drawImage B img' (clearRect B (pixels (userCanvas m))))"
  by (simp add: undo_empty redo_empty undo_stacks redo_stacks undo_loaded redo_loaded)

theorem undo_redo_contract_witness:
  "undoStack (newManager bitBrowser) = [] \<and> redoStack (newManager bitBrowser) = [] \<and>
   undo bitBrowser (newManager bitBrowser) = (newManager bitBrowser, Resolved False) \<and>
   redo bitBrowser (newManager bitBrowser) = (newManager bitBrowser, Resolved False) \<and>
   undoStack oneStroke = [''0000''] \<and> pixels (userCanvas oneStroke) = [True, True, True, True] \<and>
   loadImage bitBrowser ''0000'' = Some [False, False, False, False] \<and>
   snd (undo bitBrowser oneStroke) = Resolved True \<and>
   redoStack (fst (undo bitBrowser oneStroke)) = [''1111''] \<and>
   undoStack (fst (undo bitBrowser oneStroke)) = [] \<and>
   pixels (userCanvas (fst (undo bitBrowser oneStroke))) = [False, False, False, False] \<and>
   loadImage bitBrowser ''1111'' = Some [True, True, True, True] \<and>
   snd (redo bitBrowser (fst (undo bitBrowser oneStroke))) = Resolved True \<and>
   undoStack (fst (redo bitBrowser (fst (undo bitBrowser oneStroke)))) = [''0000''] \<and>
   redoStack (fst (redo bitBrowser (fst (undo bitBrowser oneStroke)))) = [] \<and>
   pixels (userCanvas (fst (redo bitBrowser (fst (undo bitBrowser oneStroke))))) = [True, True, True, True]"
proof -
  have empty: "undoStack (newManager bitBrowser) = [] \<and> redoStack (newManager bitBrowser) = []"
    by (simp add: newManager_def)
  have one: "undoStack oneStroke = [''0000'']" "redoStack oneStroke = []"
    "pixels (userCanvas oneStroke) = [True, True, True, True]"
    by (simp_all add: oneStroke_def run_defs)
  have dec: "loadImage bitBrowser ''0000'' = Some [False, False, False, False]"
    "loadImage bitBrowser ''1111'' = Some [True, True, True, True]"
    by (simp_all add: bitBrowser_def bitLoad_def)
  have io: "toDataURL bitBrowser [True, True, True, True] = ''1111''"
    "toDataURL bitBrowser [False, False, False, False] = ''0000''"
    "clearRect bitBrowser [True, True, True, True] = [False, False, False, False]"
    "clearRect bitBrowser [False, False, False, False] = [False, False, False, False]"
    "drawImage bitBrowser [False, False, False, False] [False, False, False, False] = [False, False, False, False]"
    "drawImage bitBrowser [True, True, True, True] [False, False, False, False] = [True, True, True, True]"
    by (simp_all add: bitBrowser_def)
  have step1: "snd (undo bitBrowser oneStroke) = Resolved True \<and>
      redoStack (fst (undo bitBrowser oneStroke)) = [''1111''] \<and>
      undoStack (fst (undo bitBrowser oneStroke)) = [] \<and>
      pixels (userCanvas (fst (undo bitBrowser oneStroke))) = [False, False, False, False]"
    using undo_redo_contract [of oneStroke bitBrowser "[False, False, False, False]"] one dec io
    by simp
  have step2: "snd (redo bitBrowser (fst (undo bitBrowser oneStroke))) = Resolved True \<and>
      undoStack (fst (redo bitBrowser (fst (undo bitBrowser oneStroke)))) = [''0000''] \<and>
      redoStack (fst (redo bitBrowser (fst (undo bitBrowser oneStroke)))) = [] \<and>
      pixels (userCanvas (fst (redo bitBrowser (fst (undo bitBrowser oneStroke))))) = [True, True, True, True]"
    using undo_redo_contract [of "fst (undo bitBrowser oneStroke)" bitBrowser _ "[True, True, True, True]"]
      step1 dec io
    by simp
  show ?thesis
    using undo_redo_contract [of "newManager bitBrowser" bitBrowser] empty one dec step1 step2
    by simp
qed

text \<open>
  What \<open>undo()\<close> followed by \<open>redo()\<close> does after any non-empty sequence of completed
  local draw gestures, when the two snapshots involved decode: both calls resolve to
  \<open>true\<close>, and the local layer ends up holding the snapshot taken immediately before
  the undo, decoded and drawn over the cleared layer at the canvas's logical size. That
  is the content before the undo when this redraw reproduces the buffer
  (\<open>rowBrowser_lossless\<close>: it does when \<open>rect.width * dpr\<close> is the buffer width).
\<close>

lemma undo_redo_redraws_snapshot:
  assumes "gs \<noteq> []" and "\<forall>g\<in>set gs. primary (gDown g)"
    and "m = strokes B gs m0"
    and "loadImage B (last (undoStack m)) = Some prev"
    and "loadImage B (getCanvasData B m) = Some cur"
  shows "snd (undo B m) = Resolved True \<and> snd (redo B (fst (undo B m))) = Resolved True \<and>
         pixels (userCanvas (fst (undo B m))) = drawImage B prev (clearRect B (pixels (userCanvas m))) \<and>
         pixels (userCanvas (fst (redo B (fst (undo B m))))) =
           drawImage B cur (clearRect B (pixels (userCanvas (fst (undo B m))))) \<and>
         (restores B (getCanvasData B m) (pixels (userCanvas (fst (undo B m)))) (pixels (userCanvas m)) \<longrightarrow>
            pixels (userCanvas (fst (redo B (fst (undo B m))))) = pixels (userCanvas m))"
proof -
  let ?m1 = "fst (undo B m)"
  have ne: "undoStack m \<noteq> []"
    using assms(1-3) by (simp add: strokes_nonempty)
  have u: "snd (undo B m) = Resolved True" "userCanvas ?m1 = drawLoaded B prev (userCanvas m)"
    using undo_loaded [OF ne assms(4)] by simp_all
  have "redoStack ?m1 = redoStack m @ [getCanvasData B m]"
    using ne by (simp add: undo_stacks getCanvasData_def)
  then have top: "redoStack ?m1 \<noteq> []" "last (redoStack ?m1) = getCanvasData B m"
    by simp_all
  have r: "snd (redo B ?m1) = Resolved True"
    "userCanvas (fst (redo B ?m1)) = drawLoaded B cur (userCanvas ?m1)"
    using redo_loaded [of ?m1 B cur] top assms(5) by simp_all
  have after: "pixels (userCanvas (fst (redo B ?m1))) = drawImage B cur (clearRect B (pixels (userCanvas ?m1)))"
    by (simp add: r(2))
  show ?thesis
    using u r(1) after assms(5) by (simp add: restores_def)
qed

text \<open>
  One tick at pixel 2 on the canvas whose drawn width is its buffer width: undo blanks
  the layer, redo brings back exactly pixel 2.
\<close>

lemma aligned_roundtrip_exact:
  "[tick 2] \<noteq> [] \<and> primary (gDown (tick 2)) \<and>
   aligned = strokes (rowBrowser 4 1) [tick 2] (newManager (rowBrowser 4 1)) \<and>
   loadImage (rowBrowser 4 1) (last (undoStack aligned)) = Some [False, False, False, False] \<and>
   loadImage (rowBrowser 4 1) (getCanvasData (rowBrowser 4 1) aligned) = Some [False, False, True, False] \<and>
   restores (rowBrowser 4 1) (getCanvasData (rowBrowser 4 1) aligned)
     (pixels (userCanvas (fst (undo (rowBrowser 4 1) aligned)))) (pixels (userCanvas aligned)) \<and>
   snd (undo (rowBrowser 4 1) aligned) = Resolved True \<and>
   snd (redo (rowBrowser 4 1) (fst (undo (rowBrowser 4 1) aligned))) = Resolved True \<and>
   pixels (userCanvas aligned) = [False, False, True, False] \<and>
   pixels (userCanvas (fst (undo (rowBrowser 4 1) aligned))) = [False, False, False, False] \<and>
   pixels (userCanvas (fst (redo (rowBrowser 4 1) (fst (undo (rowBrowser 4 1) aligned))))) =
     [False, False, True, False]"
proof -
  let ?B = "rowBrowser 4 1"
  have h1: "[tick 2] \<noteq> []"
    by simp
  have h2: "\<forall>g\<in>set [tick 2]. primary (gDown g)"
    by (simp add: tick_def primary_click)
  have h3: "aligned = strokes ?B [tick 2] (newManager ?B)"
    by (simp add: aligned_def)
  have px: "pixels (userCanvas aligned) = [False, False, True, False]"
    and top: "last (undoStack aligned) = ''0000''"
    by (simp_all add: aligned_def run_defs row_defs)
  have h4: "loadImage ?B (last (undoStack aligned)) = Some [False, False, False, False]"
    by (simp add: top rowBrowser_def rowLoad_def)
  have h5: "loadImage ?B (getCanvasData ?B aligned) = Some [False, False, True, False]"
    by (simp add: px getCanvasData_def rowBrowser_def rowLoad_def)
  have io: "drawImage ?B [False, False, False, False] (clearRect ?B [False, False, True, False]) =
      [False, False, False, False]"
    by (simp add: row_defs)
  note law = undo_redo_redraws_snapshot [OF h1 h2 h3 h4 h5]
  have ok: "snd (undo ?B aligned) = Resolved True"
    "snd (redo ?B (fst (undo ?B aligned))) = Resolved True"
    using law by blast+
  have gone: "pixels (userCanvas (fst (undo ?B aligned))) = [False, False, False, False]"
    using law by (simp add: px io)
  have exact: "restores ?B (getCanvasData ?B aligned) (pixels (userCanvas (fst (undo ?B aligned))))
       (pixels (userCanvas aligned)) \<longrightarrow>
     pixels (userCanvas (fst (redo ?B (fst (undo ?B aligned))))) = pixels (userCanvas aligned)"
    using law by blast
  have h6: "restores ?B (getCanvasData ?B aligned) (pixels (userCanvas (fst (undo ?B aligned))))
      (pixels (userCanvas aligned))"
    unfolding getCanvasData_def
    by (rule rowBrowser_lossless [where n = 4]) (simp_all add: px gone)
  show ?thesis
    using h1 h2 h3 h4 h5 h6 px ok gone exact by simp
qed

text \<open>
  C2, at the input where the code is not exact. On a canvas with \<open>rect.width = 4.9\<close>
  and \<open>dpr = 1\<close> the buffer is \<open>Math.floor(4.9) = 4\<close> pixels wide, and a restore
  draws the snapshot 4.9 pixels wide. After one tick at pixel 2, \<open>undo()\<close> and
  \<open>redo()\<close> both resolve to \<open>true\<close>, and the local layer then has pixels 2 and 3
  inked instead of pixel 2 alone.
\<close>

theorem undo_redo_not_exact:
  "bufferWidth 4.9 1 = 4 \<and>
   snd (undo (rowBrowser 4.9 1) stretched) = Resolved True \<and>
   snd (redo (rowBrowser 4.9 1) (fst (undo (rowBrowser 4.9 1) stretched))) = Resolved True \<and>
   pixels (userCanvas stretched) = [False, False, True, False] \<and>
   pixels (userCanvas (fst (redo (rowBrowser 4.9 1) (fst (undo (rowBrowser 4.9 1) stretched))))) =
     [False, False, True, True] \<and>
   pixels (userCanvas (fst (redo (rowBrowser 4.9 1) (fst (undo (rowBrowser 4.9 1) stretched))))) \<noteq>
     pixels (userCanvas stretched)"
  by (simp add: stretched_def run_defs row_defs)

text \<open>
  C3, as the code has it. When the snapshot popped by \<open>undo()\<close> or \<open>redo()\<close> fails
  to decode, the local layer (pixels and context), every remote layer and the display
  are left unchanged, and the returned promise is rejected with the error
  \<open>Failed to load image\<close>: the failure reaches the caller as a rejection, not as the
  boolean \<open>false\<close>, and never as \<open>true\<close>.
\<close>

theorem decode_failure_rejects:
  "(undoStack m \<noteq> [] \<and> loadImage B (last (undoStack m)) = None \<longrightarrow>
      snd (undo B m) = Rejected ''Failed to load image'' \<and>
      userCanvas (fst (undo B m)) = userCanvas m \<and>
      remoteCanvases (fst (undo B m)) = remoteCanvases m \<and>
      display (fst (undo B m)) = display m) \<and>
   (redoStack m \<noteq> [] \<and> loadImage B (last (redoStack m)) = None \<longrightarrow>
      snd (redo B m) = Rejected ''Failed to load image'' \<and>
      userCanvas (fst (redo B m)) = userCanvas m \<and>
      remoteCanvases (fst (redo B m)) = remoteCanvases m \<and>
      display (fst (redo B m)) = display m)"
  by (simp add: undo_failed redo_failed undo_stacks redo_stacks)

theorem decode_failure_rejects_witness:
  "undoStack staleHistory \<noteq> [] \<and> loadImage bitBrowser (last (undoStack staleHistory)) = None \<and>
   redoStack staleHistory \<noteq> [] \<and> loadImage bitBrowser (last (redoStack staleHistory)) = None \<and>
   snd (undo bitBrowser staleHistory) = Rejected ''Failed to load image'' \<and>
   userCanvas (fst (undo bitBrowser staleHistory)) = userCanvas staleHistory \<and>
   snd (redo bitBrowser staleHistory) = Rejected ''Failed to load image'' \<and>
   userCanvas (fst (redo bitBrowser staleHistory)) = userCanvas staleHistory"
proof -
  have hyp: "undoStack staleHistory \<noteq> [] \<and> loadImage bitBrowser (last (undoStack staleHistory)) = None \<and>
      redoStack staleHistory \<noteq> [] \<and> loadImage bitBrowser (last (redoStack staleHistory)) = None"
    by (simp add: staleHistory_def newManager_def bitBrowser_def bitLoad_def)
  show ?thesis
    using hyp decode_failure_rejects [of staleHistory bitBrowser]
    by simp
qed

text \<open>
  The claim C3 as stated fails: with an undecodable snapshot on top of \<open>undoStack\<close>,
  \<open>undo()\<close> does not resolve to \<open>false\<close>.
\<close>

theorem decode_failure_not_false:
  "undoStack staleHistory \<noteq> [] \<and> loadImage bitBrowser (last (undoStack staleHistory)) = None \<and>
   snd (undo bitBrowser staleHistory) \<noteq> Resolved False"
  by (simp add: staleHistory_def newManager_def bitBrowser_def bitLoad_def undo_def applyDataUrl_def Let_def)

text \<open>
  C5. A completed draw gesture leaves \<open>redoStack\<close> empty, so a \<open>redo()\<close> right after
  it resolves to \<open>false\<close> and changes nothing; in particular in
  draw; undo; draw; redo. An undo alone only appends to \<open>redoStack\<close>, and an undo/redo
  pair leaves \<open>redoStack\<close> as it was. A local clear empties \<open>redoStack\<close> as well.
\<close>

theorem draw_after_undo_clears_redo:
  "(primary (gDown g) \<longrightarrow>
      redoStack (strokeGesture B g m) = [] \<and>
      redo B (strokeGesture B g m) = (strokeGesture B g m, Resolved False)) \<and>
   (primary (gDown g1) \<and> primary (gDown g) \<longrightarrow>
      redo B (strokeGesture B g (fst (undo B (strokeGesture B g1 m)))) =
        (strokeGesture B g (fst (undo B (strokeGesture B g1 m))), Resolved False)) \<and>
   (undoStack m \<noteq> [] \<longrightarrow>
      redoStack (fst (undo B m)) = redoStack m @ [toDataURL B (pixels (userCanvas m))] \<and>
      redoStack (fst (redo B (fst (undo B m)))) = redoStack m) \<and>
   redoStack (clear B m) = []"
  by (simp add: strokeGesture_stacks redo_empty undo_stacks redo_stacks clear_def Let_def)

theorem draw_after_undo_clears_redo_witness:
  "primary (gDown dash) \<and>
   redoStack (fst (undo bitBrowser oneStroke)) = [''1111''] \<and>
   redoStack (strokeGesture bitBrowser dash (fst (undo bitBrowser oneStroke))) = [] \<and>
   redo bitBrowser (strokeGesture bitBrowser dash (fst (undo bitBrowser oneStroke))) =
     (strokeGesture bitBrowser dash (fst (undo bitBrowser oneStroke)), Resolved False) \<and>
   undoStack oneStroke \<noteq> [] \<and>
   redoStack (fst (redo bitBrowser (fst (undo bitBrowser oneStroke)))) = redoStack oneStroke"
proof -
  have hyp: "primary (gDown dash)"
    by (simp add: dash_def primary_click)
  have one: "undoStack oneStroke \<noteq> []" "redoStack oneStroke = []"
    "toDataURL bitBrowser (pixels (userCanvas oneStroke)) = ''1111''"
    by (simp_all add: oneStroke_def run_defs)
  show ?thesis
    using hyp one
      draw_after_undo_clears_redo [of dash bitBrowser "fst (undo bitBrowser oneStroke)" dash]
      draw_after_undo_clears_redo [of dash bitBrowser oneStroke dash]
    by simp
qed

text \<open>
  C4, at the input where the code exceeds its bound. \<open>pushUndo\<close> keeps \<open>undoStack\<close>
  at \<open>MAX_STACK\<close> entries by dropping the oldest (\<open>pushUndo_fifo\<close>), and sequences of
  completed actions keep both stacks within the bound (\<open>completed_actions_bounded\<close>).
  But \<open>redo()\<close> pushes onto \<open>undoStack\<close> without the check, and \<open>redoStack\<close> is emptied
  only at pointer up: after fifty strokes and one undo, a pointer down followed by a
  redo before the pointer is released leaves fifty-one snapshots on \<open>undoStack\<close>.
\<close>

theorem redo_during_stroke_exceeds_MAX_STACK:
  "length (undoStack fullHistory) = 50 \<and>
   length (undoStack (fst (redo bitBrowser
     (handlePointerDown bitBrowser (click 10 10) (fst (undo bitBrowser fullHistory)))))) = 51"
proof -
  let ?m1 = "fst (undo bitBrowser fullHistory)"
  let ?m2 = "handlePointerDown bitBrowser (click 10 10) ?m1"
  have ne: "undoStack fullHistory \<noteq> []"
    using fullHistory_length by auto
  have m1: "length (undoStack ?m1) = 49" "redoStack ?m1 \<noteq> []"
    using undo_stacks [OF ne, of bitBrowser] fullHistory_length by simp_all
  have m2: "length (undoStack ?m2) = 50" "redoStack ?m2 \<noteq> []"
    using handlePointerDown_primary [OF primary_click, of bitBrowser 10 10 ?m1] m1
    by (simp_all add: pushUndo_length MAX_STACK_def)
  show ?thesis
    using redo_stacks [OF m2(2), of bitBrowser] m2(1) fullHistory_length by simp
qed

section \<open>Inbound events\<close>

text \<open>
  C7. An inbound drawing event whose \<open>userId\<close> equals the identity of the socket
  client is discarded before it reaches the canvas manager: the whole application
  state, every layer included, is unchanged and nothing is thrown.
\<close>

theorem own_drawing_discarded:
  "userId d = wsUserId a \<Longrightarrow> onDrawing B d a = (a, None)"
  by (simp add: onDrawing_def)

theorem own_drawing_discarded_witness:
  "userId loopback = wsUserId peers \<and> onDrawing bitBrowser loopback peers = (peers, None)"
proof -
  have hyp: "userId loopback = wsUserId peers"
    by (simp add: loopback_def pen_def peers_def)
  show ?thesis
    using hyp own_drawing_discarded [OF hyp, of bitBrowser]
    by simp
qed

text \<open>
  C9, at the input where the code throws. A drawing event from another author with
  \<open>type = 'start'\<close> and no \<open>pos\<close> passes the \<open>userId\<close> check, creates a layer for
  that author, and then throws a \<open>TypeError\<close> out of the handler when \<open>pos.x\<close> is
  read; no diagnostic is logged.
\<close>

theorem drawing_without_pos_throws:
  "userId noPos \<noteq> wsUserId app0 \<and>
   snd (onDrawing bitBrowser noPos app0) = Some TypeError \<and>
   remoteCanvases (canvasManager app0) = [] \<and>
   map fst (remoteCanvases (canvasManager (fst (onDrawing bitBrowser noPos app0)))) = [''u2''] \<and>
   console (canvasManager (fst (onDrawing bitBrowser noPos app0))) = []"
  by (simp add: noPos_def app0_def run_defs)

text \<open>
  C10. An inbound canvas-state event whose \<open>canvasData\<close> is a non-empty data URL that
  decodes is drawn into the local user's own layer: its pixels become the image drawn
  over the cleared buffer. No remote layer, the sender's included, and neither history
  stack changes, and the display is recomposed.
\<close>

theorem canvas_state_overwrites_local_layer:
  assumes "d \<noteq> []" and "loadImage B d = Some img"
    and "m = canvasManager a" and "m' = canvasManager (onCanvasState B (Str d) a)"
  shows "pixels (userCanvas m') = drawImage B img (clearRect B (pixels (userCanvas m))) \<and>
         remoteCanvases m' = remoteCanvases m \<and>
         undoStack m' = undoStack m \<and> redoStack m' = redoStack m \<and>
         display m' = composed B (display m) (userCanvas m') (remoteCanvases m)"
  using assms by (simp add: onCanvasState_def loadCanvasData_def applyDataUrl_loaded)

theorem canvas_state_overwrites_local_layer_witness:
  "''0101'' \<noteq> [] \<and> loadImage bitBrowser ''0101'' = Some [False, True, False, True] \<and>
   pixels (userCanvas (canvasManager peers)) = [True, True, True, True] \<and>
   pixels (userCanvas (canvasManager (onCanvasState bitBrowser (Str ''0101'') peers))) =
     [False, True, False, True] \<and>
   remoteCanvases (canvasManager (onCanvasState bitBrowser (Str ''0101'') peers)) =
     remoteCanvases (canvasManager peers)"
proof -
  have h1: "''0101'' \<noteq> []"
    by simp
  have h2: "loadImage bitBrowser ''0101'' = Some [False, True, False, True]"
    by (simp add: bitBrowser_def bitLoad_def)
  have px: "pixels (userCanvas (canvasManager peers)) = [True, True, True, True]"
    by (simp add: peers_def oneStroke_def run_defs)
  have io: "drawImage bitBrowser [False, True, False, True] (clearRect bitBrowser [True, True, True, True]) =
      [False, True, False, True]"
    by (simp add: bitBrowser_def)
  show ?thesis
    using h1 h2 px io canvas_state_overwrites_local_layer [OF h1 h2 refl refl, of peers]
    by simp
qed

end
